theory Spec2Isabelle
  imports Main
begin

section \<open>JavaScript values\<close>

text \<open>
  The client is TypeScript: \<^verbatim>\<open>BackendClient.ts\<close> (kept in two builds, a plain one and
  one with console logging, a \<^verbatim>\<open>try/catch\<close> around the message handler and a
  \<^verbatim>\<open>default\<close> case) and \<^verbatim>\<open>SidebarProvider.ts\<close>. What arrives on the WebSocket and in
  HTTP responses is whatever \<^verbatim>\<open>JSON.parse\<close> produces, so it is modelled as a JSON value.
  A number is carried as the text JavaScript prints for it (\<^verbatim>\<open>String(n)\<close>); the client
  never computes with a number, it only tests truthiness and builds strings.
  \<^verbatim>\<open>undefined\<close> is \<open>None\<close> of \<open>json option\<close>. An object lists its properties, each
  key once. Console output is not modelled.
\<close>

datatype json =
    JNull
  | JBool bool
  | JNum string
  | JStr string
  | JArr "json list"
  | JObj "(string \<times> json) list"

text \<open>
  Reading a property \<^verbatim>\<open>v.k\<close> of a value that is not \<^verbatim>\<open>null\<close>, for the keys the client
  reads (\<^verbatim>\<open>type\<close>, \<^verbatim>\<open>message\<close>, \<^verbatim>\<open>session_id\<close>, \<^verbatim>\<open>plan\<close>, ...): an object gives the
  stored value, anything else gives \<^verbatim>\<open>undefined\<close>. Reading a property of \<^verbatim>\<open>null\<close> throws
  a TypeError; the callers below handle that case before they call \<open>js_prop\<close>.
\<close>

definition js_prop :: "json \<Rightarrow> string \<Rightarrow> json option" where
  "js_prop v k = (case v of JObj kvs \<Rightarrow> map_of kvs k | _ \<Rightarrow> None)"

text \<open>JavaScript truthiness, as \<^verbatim>\<open>!x\<close> and \<^verbatim>\<open>x || y\<close> test it.\<close>

fun js_truthy :: "json option \<Rightarrow> bool" where
  "js_truthy None = False"
| "js_truthy (Some JNull) = False"
| "js_truthy (Some (JBool b)) = b"
| "js_truthy (Some (JNum t)) = (t \<noteq> ''0'')"
| "js_truthy (Some (JStr s)) = (s \<noteq> [])"
| "js_truthy (Some (JArr xs)) = True"
| "js_truthy (Some (JObj kvs)) = True"

text \<open>
  \<^verbatim>\<open>String(v)\<close>, which template literals and \<^verbatim>\<open>new Error(v)\<close> apply; \<open>None\<close> when the
  conversion throws a TypeError. A parsed object has no callable property of its own, so
  an object with a key \<^verbatim>\<open>toString\<close> of its own cannot be converted (its \<^verbatim>\<open>toString\<close> is
  not callable and \<^verbatim>\<open>valueOf\<close> does not give a primitive); any other object prints as
  \<^verbatim>\<open>[object Object]\<close>. An array prints its elements joined by commas, \<^verbatim>\<open>null\<close> elements
  as the empty string, and cannot be converted when one of its elements cannot.
\<close>

fun js_to_string :: "json \<Rightarrow> string option" and js_join :: "json list \<Rightarrow> string option" where
  "js_to_string JNull = Some ''null''"
| "js_to_string (JBool b) = Some (if b then ''true'' else ''false'')"
| "js_to_string (JNum t) = Some t"
| "js_to_string (JStr s) = Some s"
| "js_to_string (JArr xs) = js_join xs"
| "js_to_string (JObj kvs) =
     (if map_of kvs ''toString'' = None then Some ''[object Object]'' else None)"
| "js_join [] = Some []"
| "js_join [x] = (if x = JNull then Some [] else js_to_string x)"
| "js_join (x # y # ys) =
     (case (if x = JNull then Some [] else js_to_string x) of
        None \<Rightarrow> None
      | Some a \<Rightarrow> (case js_join (y # ys) of None \<Rightarrow> None | Some b \<Rightarrow> Some (a @ '','' @ b)))"

text \<open>\<^verbatim>\<open>`${v}`\<close> for a value that may be \<^verbatim>\<open>undefined\<close>.\<close>

definition js_template :: "json option \<Rightarrow> string option" where
  "js_template v = (case v of None \<Rightarrow> Some ''undefined'' | Some j \<Rightarrow> js_to_string j)"

text \<open>
  An \<^verbatim>\<open>Error\<close> object (of any class: Error, TypeError, SyntaxError, an axios error), by
  its \<^verbatim>\<open>message\<close>.
\<close>

datatype js_error = Error string

fun err_message :: "js_error \<Rightarrow> string" where
  "err_message (Error m) = m"

text \<open>The message of the TypeError V8 raises when a value cannot be converted.\<close>

definition cannot_convert_message :: string where
  "cannot_convert_message = ''Cannot convert object to primitive value''"

text \<open>
  \<^verbatim>\<open>new Error(v)\<close>: the message is \<^verbatim>\<open>String(v)\<close>, and empty when \<^verbatim>\<open>v\<close> is \<^verbatim>\<open>undefined\<close>;
  \<open>None\<close> when the conversion throws.
\<close>

definition new_Error :: "json option \<Rightarrow> js_error option" where
  "new_Error v =
     (case v of
        None \<Rightarrow> Some (Error [])
      | Some j \<Rightarrow> (case js_to_string j of None \<Rightarrow> None | Some m \<Rightarrow> Some (Error m)))"

text \<open>Exceptions the engine itself raises (their message text is the engine's).\<close>

datatype js_exn = SyntaxErrorExn | TypeErrorExn

section \<open>BackendClient\<close>

text \<open>The two builds of \<^verbatim>\<open>BackendClient.ts\<close> in the repository.\<close>

datatype client_build = Plain | Logged

subsection \<open>HTTP calls\<close>

text \<open>
  A request made through the axios instance: the method, the path below the base URL and
  the JSON body. The server is a parameter: the response to a request is either the
  error axios throws or \<^verbatim>\<open>response.data\<close>.
\<close>

datatype http_method = GET | POST

record http_request =
  http_method :: http_method
  http_path :: string
  http_body :: "json option"

type_synonym server = "http_request \<Rightarrow> js_error + json"

text \<open>
  The fields of a \<^verbatim>\<open>BackendClient\<close>: the axios instance (here the server it talks to)
  and the base URL, and which build of the class it is. With them goes the constructor
  of the \<^verbatim>\<open>ws\<close> library, which is not among the sources: \<open>new_WebSocket bc url\<close> is the
  error it throws for a URL it refuses, and \<open>None\<close> when it constructs the socket.
\<close>

record backend_client =
  api :: server
  baseUrl :: string
  build :: client_build
  new_WebSocket :: "string \<Rightarrow> js_error option"

text \<open>
  \<^verbatim>\<open>startWorkflow(request, projectPath)\<close>:
  \<^verbatim>\<open>this.api.post('/workflow/start', {request, project_path: projectPath})\<close>,
  returning \<^verbatim>\<open>response.data\<close>; the logged build rethrows what it catches.
\<close>

definition start_request :: "string \<Rightarrow> string \<Rightarrow> http_request" where
  "start_request request projectPath =
     \<lparr>http_method = POST, http_path = ''/workflow/start'',
      http_body = Some (JObj [(''request'', JStr request), (''project_path'', JStr projectPath)])\<rparr>"

definition startWorkflow :: "backend_client \<Rightarrow> string \<Rightarrow> string \<Rightarrow> http_request list \<times> (js_error + json)" where
  "startWorkflow bc request projectPath =
     ([start_request request projectPath], api bc (start_request request projectPath))"

text \<open>
  \<^verbatim>\<open>getStatus(sessionId)\<close>: \<^verbatim>\<open>this.api.get(`/workflow/status/${sessionId}`)\<close>. When the
  session id cannot be converted, the template literal throws before any request is made
  (in the logged build already in the logging line before the \<^verbatim>\<open>try\<close>).
\<close>

definition status_request :: "string \<Rightarrow> http_request" where
  "status_request sid =
     \<lparr>http_method = GET, http_path = ''/workflow/status/'' @ sid, http_body = None\<rparr>"

definition getStatus :: "backend_client \<Rightarrow> json option \<Rightarrow> http_request list \<times> (js_error + json)" where
  "getStatus bc sessionId =
     (case js_template sessionId of
        None \<Rightarrow> ([], Inl (Error cannot_convert_message))
      | Some sid \<Rightarrow> ([status_request sid], api bc (status_request sid)))"

text \<open>
  \<^verbatim>\<open>submitReview(sessionId, feedback, action)\<close>:
  \<^verbatim>\<open>this.api.post('/workflow/review', {session_id: sessionId, feedback, action})\<close>; the
  result is void. The session id is whatever the caller holds (\<^verbatim>\<open>JSON.stringify\<close> drops a
  key whose value is \<^verbatim>\<open>undefined\<close>).
\<close>

definition review_request :: "json option \<Rightarrow> string \<Rightarrow> string \<Rightarrow> http_request" where
  "review_request sessionId feedback action =
     \<lparr>http_method = POST, http_path = ''/workflow/review'',
      http_body = Some (JObj
        ((case sessionId of None \<Rightarrow> [] | Some sid \<Rightarrow> [(''session_id'', sid)]) @
         [(''feedback'', JStr feedback), (''action'', JStr action)]))\<rparr>"

definition submitReview :: "backend_client \<Rightarrow> json option \<Rightarrow> string \<Rightarrow> string \<Rightarrow> http_request list \<times> (js_error + unit)" where
  "submitReview bc sessionId feedback action =
     ([review_request sessionId feedback action],
      (case api bc (review_request sessionId feedback action) of
         Inl e \<Rightarrow> Inl e
       | Inr _ \<Rightarrow> Inr ()))"

subsection \<open>The WebSocket connection\<close>

text \<open>
  \<^verbatim>\<open>this.baseUrl.replace(/^http/, 'ws')\<close>: the pattern is anchored at the start of the
  string and has no flags, so the one possible match is the first four characters.
\<close>

definition replace_http :: "string \<Rightarrow> string" where
  "replace_http base = (if take 4 base = ''http'' then ''ws'' @ drop 4 base else base)"

text \<open>\<^verbatim>\<open>`${wsUrl}/ws/${sessionId}`\<close>; \<open>None\<close> when the session id cannot be converted.\<close>

definition ws_url :: "string \<Rightarrow> json option \<Rightarrow> string option" where
  "ws_url base sessionId =
     (case js_template sessionId of
        None \<Rightarrow> None
      | Some sid \<Rightarrow> Some (replace_http base @ ''/ws/'' @ sid))"

text \<open>
  The promise \<^verbatim>\<open>connectWebSocket\<close> returns: \<^verbatim>\<open>resolve\<close> and \<^verbatim>\<open>reject\<close> act only while it
  is pending.
\<close>

datatype promise_state = Pending | Resolved | Rejected js_error

text \<open>
  The four optional callbacks of \<^verbatim>\<open>WebSocketCallbacks\<close>, acting on the caller's state
  \<open>'u\<close>. \<^verbatim>\<open>onError\<close> receives either the parsed message or the socket's Error object.
\<close>

datatype err_arg = ErrMessage json | ErrObject js_error

record 'u callbacks =
  onStepUpdate :: "(json \<Rightarrow> 'u \<Rightarrow> 'u) option"
  onReviewRequired :: "(json \<Rightarrow> 'u \<Rightarrow> 'u) option"
  onComplete :: "(json \<Rightarrow> 'u \<Rightarrow> 'u) option"
  onError :: "(err_arg \<Rightarrow> 'u \<Rightarrow> 'u) option"

text \<open>
  One call of \<^verbatim>\<open>connectWebSocket\<close>: the URL passed to the \<^verbatim>\<open>WebSocket\<close> constructor (if
  the call got that far), whether the socket was constructed, the promise, how often
  \<^verbatim>\<open>ws.close()\<close> was called, the exceptions that left the message handler uncaught, and
  the caller's state.
\<close>

record 'u ws_conn =
  conn_url :: "string option"
  socket :: bool
  promise :: promise_state
  close_calls :: nat
  uncaught :: "js_exn list"
  caller :: "'u"

definition resolve :: "'u ws_conn \<Rightarrow> 'u ws_conn" where
  "resolve c = (if promise c = Pending then c\<lparr>promise := Resolved\<rparr> else c)"

definition reject :: "js_error \<Rightarrow> 'u ws_conn \<Rightarrow> 'u ws_conn" where
  "reject e c = (if promise c = Pending then c\<lparr>promise := Rejected e\<rparr> else c)"

definition ws_close :: "'u ws_conn \<Rightarrow> 'u ws_conn" where
  "ws_close c = c\<lparr>close_calls := Suc (close_calls c)\<rparr>"

text \<open>\<^verbatim>\<open>callbacks.onX?.(arg)\<close>: called when the callback is there.\<close>

definition call_cb :: "('a \<Rightarrow> 'u \<Rightarrow> 'u) option \<Rightarrow> 'a \<Rightarrow> 'u ws_conn \<Rightarrow> 'u ws_conn" where
  "call_cb cb arg c = (case cb of None \<Rightarrow> c | Some f \<Rightarrow> c\<lparr>caller := f arg (caller c)\<rparr>)"

text \<open>
  What a \<^verbatim>\<open>message\<close> event carries: \<^verbatim>\<open>JSON.parse(data.toString())\<close> either throws a
  SyntaxError or gives a value.
\<close>

datatype ws_data = Malformed | Parsed json

text \<open>
  An exception inside the handler: the plain build lets it escape (it is recorded as
  uncaught, and the handlers stay installed), the logged build catches and logs it.
  Either way the rest of the connection state is as it was when the exception was
  thrown.
\<close>

definition handler_throws :: "client_build \<Rightarrow> js_exn \<Rightarrow> 'u ws_conn \<Rightarrow> 'u ws_conn" where
  "handler_throws b x c =
     (case b of Plain \<Rightarrow> c\<lparr>uncaught := uncaught c @ [x]\<rparr> | Logged \<Rightarrow> c)"

text \<open>
  The \<^verbatim>\<open>switch (message.type)\<close> of the message handler. \<^verbatim>\<open>switch\<close> compares with
  \<^verbatim>\<open>===\<close>, so only a string equal to the label matches; any other type falls through
  (the logged build's \<^verbatim>\<open>default\<close> only warns). In the \<^verbatim>\<open>error\<close> case
  \<^verbatim>\<open>new Error(message.message)\<close> is evaluated after \<^verbatim>\<open>onError\<close> and \<^verbatim>\<open>ws.close()\<close>; when it
  throws, \<^verbatim>\<open>reject\<close> is not reached.
\<close>

definition dispatch :: "client_build \<Rightarrow> 'u callbacks \<Rightarrow> json \<Rightarrow> 'u ws_conn \<Rightarrow> 'u ws_conn" where
  "dispatch b cbs message c =
     (let t = js_prop message ''type'' in
      if t = Some (JStr ''step_update'') then
        call_cb (onStepUpdate cbs) message c
      else if t = Some (JStr ''review_required'') then
        resolve (ws_close (call_cb (onReviewRequired cbs) message c))
      else if t = Some (JStr ''workflow_complete'') then
        resolve (ws_close (call_cb (onComplete cbs) message c))
      else if t = Some (JStr ''error'') then
        (let c1 = ws_close (call_cb (onError cbs) (ErrMessage message) c) in
         case new_Error (js_prop message ''message'') of
           None \<Rightarrow> handler_throws b TypeErrorExn c1
         | Some e \<Rightarrow> reject e c1)
      else c)"

definition on_message :: "client_build \<Rightarrow> 'u callbacks \<Rightarrow> ws_data \<Rightarrow> 'u ws_conn \<Rightarrow> 'u ws_conn" where
  "on_message b cbs d c =
     (case d of
        Malformed \<Rightarrow> handler_throws b SyntaxErrorExn c
      | Parsed message \<Rightarrow>
          (if message = JNull then handler_throws b TypeErrorExn c
           else dispatch b cbs message c))"

text \<open>
  The events of the socket, in the order the \<^verbatim>\<open>ws\<close> library emits them. The \<^verbatim>\<open>open\<close>
  and \<^verbatim>\<open>close\<close> handlers only log; the \<^verbatim>\<open>error\<close> handler calls \<^verbatim>\<open>onError\<close> with the
  Error object and rejects with it, without closing. Without a socket no handler was
  installed, and nothing happens.
\<close>

datatype ws_event = WsOpen | WsMessage ws_data | WsError js_error | WsClose

definition on_event :: "client_build \<Rightarrow> 'u callbacks \<Rightarrow> ws_event \<Rightarrow> 'u ws_conn \<Rightarrow> 'u ws_conn" where
  "on_event b cbs ev c =
     (if \<not> socket c then c
      else
        (case ev of
           WsOpen \<Rightarrow> c
         | WsMessage d \<Rightarrow> on_message b cbs d c
         | WsError e \<Rightarrow> reject e (call_cb (onError cbs) (ErrObject e) c)
         | WsClose \<Rightarrow> c))"

text \<open>
  \<^verbatim>\<open>connectWebSocket(sessionId, callbacks)\<close>: the executor of the promise builds the URL,
  constructs the socket and installs the handlers; the events then arrive one by one.
  An exception in the executor (the template literal cannot convert the session id, or
  the constructor refuses the URL) rejects the promise at once: there is no socket, no
  handler and no callback.
\<close>

definition connectWebSocket :: "backend_client \<Rightarrow> json option \<Rightarrow> 'u \<Rightarrow> 'u ws_conn" where
  "connectWebSocket bc sessionId u =
     (case ws_url (baseUrl bc) sessionId of
        None \<Rightarrow>
          \<lparr>conn_url = None, socket = False, promise = Rejected (Error cannot_convert_message),
           close_calls = 0, uncaught = [], caller = u\<rparr>
      | Some url \<Rightarrow>
          (case new_WebSocket bc url of
             Some e \<Rightarrow>
               \<lparr>conn_url = Some url, socket = False, promise = Rejected e,
                close_calls = 0, uncaught = [], caller = u\<rparr>
           | None \<Rightarrow>
               \<lparr>conn_url = Some url, socket = True, promise = Pending,
                close_calls = 0, uncaught = [], caller = u\<rparr>))"

fun run_events :: "client_build \<Rightarrow> 'u callbacks \<Rightarrow> ws_event list \<Rightarrow> 'u ws_conn \<Rightarrow> 'u ws_conn" where
  "run_events b cbs [] c = c"
| "run_events b cbs (ev # evs) c = run_events b cbs evs (on_event b cbs ev c)"

section \<open>SidebarProvider\<close>

subsection \<open>The webview page\<close>

text \<open>
  The messages the extension posts to the webview (\<^verbatim>\<open>this._view.webview.postMessage\<close>),
  by their \<^verbatim>\<open>type\<close>, with the fields each carries.
\<close>

datatype webview_msg =
    AddMessage string string
  | SetThinking bool
  | StepUpdateMsg "json option" "json option" "json option"
  | ReviewRequiredMsg "json option" "json option"
  | WorkflowCompleteMsg "json option"
  | ErrorMsg json

text \<open>
  The \<^verbatim>\<open>action\<close> of a review: \<^verbatim>\<open>handleReviewSubmission\<close> declares it as
  \<^verbatim>\<open>'approve' | 'revise'\<close>, and the page's two buttons call \<^verbatim>\<open>submitReview('approve')\<close>
  and \<^verbatim>\<open>submitReview('revise')\<close>.
\<close>

datatype review_action = Approve | Revise

fun action_string :: "review_action \<Rightarrow> string" where
  "action_string Approve = ''approve''"
| "action_string Revise = ''revise''"

text \<open>The messages the page posts to the extension (\<^verbatim>\<open>vscode.postMessage\<close>).\<close>

datatype page_msg =
    SendMessage string
  | SubmitReview string review_action
  | OpenFile string

text \<open>
  The state of the page script that its two senders read and write: the \<^verbatim>\<open>isThinking\<close>
  flag, the two text areas and whether the review panel is shown. Both senders call the
  built-in \<^verbatim>\<open>String.prototype.trim\<close>, which is taken as the parameter \<open>trim\<close>.
\<close>

record page =
  isThinking :: bool
  messageInput :: string
  reviewFeedback :: string
  reviewPanelActive :: bool

text \<open>
  \<^verbatim>\<open>function sendMessage()\<close>: nothing is sent for an empty (trimmed) message or while
  thinking; otherwise the trimmed text is posted and the input cleared.
\<close>

definition page_sendMessage :: "(string \<Rightarrow> string) \<Rightarrow> page \<Rightarrow> page_msg option \<times> page" where
  "page_sendMessage trim pg =
     (let message = trim (messageInput pg) in
      if message = [] \<or> isThinking pg then (None, pg)
      else (Some (SendMessage message), pg\<lparr>messageInput := []\<rparr>))"


subsection \<open>The provider\<close>

text \<open>
  The provider's two fields, \<^verbatim>\<open>_view\<close> (with the messages posted to it so far, oldest
  first; \<open>None\<close> while it is \<^verbatim>\<open>undefined\<close>) and \<^verbatim>\<open>currentSessionId\<close>, and what it does to
  its surroundings: \<^verbatim>\<open>vscode.workspace.workspaceFolders\<close> (the folders by their
  \<^verbatim>\<open>uri.fsPath\<close>), the HTTP requests sent, the WebSocket URLs opened and the documents
  opened (folder and relative path).
\<close>

record provider =
  view :: "webview_msg list option"
  currentSessionId :: "json option"
  workspaceFolders :: "string list option"
  http_sent :: "http_request list"
  ws_opened :: "string list"
  docs_opened :: "(string \<times> string) list"

definition postMessage :: "webview_msg \<Rightarrow> provider \<Rightarrow> provider" where
  "postMessage m p = (case view p of None \<Rightarrow> p | Some ms \<Rightarrow> p\<lparr>view := Some (ms @ [m])\<rparr>)"

text \<open>\<^verbatim>\<open>x || d\<close> for a default string \<^verbatim>\<open>d\<close>.\<close>

definition js_or :: "json option \<Rightarrow> string \<Rightarrow> json" where
  "js_or v d = (if js_truthy v then the v else JStr d)"

text \<open>\<^verbatim>\<open>error.message\<close> of what \<^verbatim>\<open>onError\<close> receives.\<close>

fun arg_message :: "err_arg \<Rightarrow> json option" where
  "arg_message (ErrMessage m) = js_prop m ''message''"
| "arg_message (ErrObject e) = Some (JStr (err_message e))"

text \<open>The four callbacks \<^verbatim>\<open>connectToWorkflow\<close> passes to \<^verbatim>\<open>connectWebSocket\<close>.\<close>

definition sidebar_callbacks :: "provider callbacks" where
  "sidebar_callbacks =
     \<lparr>onStepUpdate = Some (\<lambda>data.
        postMessage (StepUpdateMsg (js_prop data ''current_step'') (js_prop data ''plan'')
                       (js_prop data ''active_agent''))),
      onReviewRequired = Some (\<lambda>data p.
        postMessage (SetThinking False)
          (postMessage (ReviewRequiredMsg (js_prop data ''plan'') (js_prop data ''generated_files'')) p)),
      onComplete = Some (\<lambda>data p.
        postMessage (SetThinking False)
          (postMessage (WorkflowCompleteMsg (js_prop data ''generated_files'')) p)),
      onError = Some (\<lambda>error p.
        postMessage (SetThinking False)
          (postMessage (ErrorMsg (js_or (arg_message error) ''An error occurred'')) p))\<rparr>"

text \<open>
  The \<^verbatim>\<open>catch\<close> of \<^verbatim>\<open>connectToWorkflow\<close>, which runs when the awaited promise rejects:
  \<^verbatim>\<open>'Connection error: ' + error.message\<close>.
\<close>

definition connect_catch :: "js_error \<Rightarrow> provider \<Rightarrow> provider" where
  "connect_catch e p =
     postMessage (SetThinking False)
       (postMessage (ErrorMsg (JStr (''Connection error: '' @ err_message e))) p)"

text \<open>
  The socket's events arrive in turns of the event loop: the library may emit several
  events in one turn, and their handlers run one after the other before anything else
  does. The \<^verbatim>\<open>await\<close> in \<^verbatim>\<open>connectToWorkflow\<close> continues only when the turn is over: if
  the promise was rejected during the turn, the \<^verbatim>\<open>catch\<close> runs then, after the handlers
  of every event of that turn. How the events fall into turns is the library's doing, so
  the events are given turn by turn.
\<close>

definition sidebar_tick :: "client_build \<Rightarrow> ws_event list \<Rightarrow> provider ws_conn \<Rightarrow> provider ws_conn" where
  "sidebar_tick b evs c =
     (let c' = run_events b sidebar_callbacks evs c in
      case (promise c, promise c') of
        (Pending, Rejected e) \<Rightarrow> c'\<lparr>caller := connect_catch e (caller c')\<rparr>
      | _ \<Rightarrow> c')"

fun sidebar_ticks :: "client_build \<Rightarrow> ws_event list list \<Rightarrow> provider ws_conn \<Rightarrow> provider ws_conn" where
  "sidebar_ticks b [] c = c"
| "sidebar_ticks b (evs # ticks) c = sidebar_ticks b ticks (sidebar_tick b evs c)"

text \<open>
  \<^verbatim>\<open>connectToWorkflow()\<close>, given the events the socket it opens will deliver: it returns
  at once without a session id or a view; otherwise it calls \<^verbatim>\<open>connectWebSocket\<close> on the
  current session. When that promise is rejected at once, the \<^verbatim>\<open>catch\<close> runs and there
  are no events; otherwise a socket was opened on the URL and its events are handled.
  \<open>connect_run\<close> is the connection at the end, \<open>connectToWorkflow\<close> the provider.
\<close>

definition connect_run :: "backend_client \<Rightarrow> ws_event list list \<Rightarrow> provider \<Rightarrow> provider ws_conn" where
  "connect_run bc ticks p =
     (let c0 = connectWebSocket bc (currentSessionId p) p in
      case promise c0 of
        Rejected e \<Rightarrow> c0\<lparr>caller := connect_catch e p\<rparr>
      | _ \<Rightarrow>
          sidebar_ticks (build bc) ticks
            (c0\<lparr>caller := p\<lparr>ws_opened := ws_opened p @
                      (case conn_url c0 of None \<Rightarrow> [] | Some url \<Rightarrow> [url])\<rparr>\<rparr>))"

definition connectToWorkflow :: "backend_client \<Rightarrow> ws_event list list \<Rightarrow> provider \<Rightarrow> provider" where
  "connectToWorkflow bc ticks p =
     (if \<not> js_truthy (currentSessionId p) \<or> view p = None then p
      else caller (connect_run bc ticks p))"

text \<open>
  The \<^verbatim>\<open>catch\<close> blocks of \<^verbatim>\<open>handleUserMessage\<close> and \<^verbatim>\<open>handleReviewSubmission\<close>:
  \<^verbatim>\<open>error.message || fallback\<close>, then the thinking indicator is switched off.
\<close>

definition handler_catch :: "string \<Rightarrow> string \<Rightarrow> provider \<Rightarrow> provider" where
  "handler_catch message fallback p =
     postMessage (SetThinking False)
       (postMessage (ErrorMsg (js_or (Some (JStr message)) fallback)) p)"

text \<open>
  The message of the TypeError V8 raises for \<^verbatim>\<open>session.session_id\<close> when the response
  data is \<^verbatim>\<open>null\<close>.
\<close>

definition null_read_message :: "string \<Rightarrow> string" where
  "null_read_message k =
     ''Cannot read properties of null (reading '' @ [CHR 0x27] @ k @ [CHR 0x27] @ '')''"

text \<open>
  \<^verbatim>\<open>handleUserMessage(message)\<close>, given the events of the socket it may open. Without a
  view it returns at once. Otherwise it shows the user's message and the thinking
  indicator; without a first workspace folder it throws
  \<^verbatim>\<open>'Please open a workspace folder first'\<close> into its own \<^verbatim>\<open>catch\<close>; with one it starts
  the workflow, stores \<^verbatim>\<open>session.session_id\<close> and connects.
\<close>

definition handleUserMessage :: "backend_client \<Rightarrow> ws_event list list \<Rightarrow> string \<Rightarrow> provider \<Rightarrow> provider" where
  "handleUserMessage bc ticks message p =
     (if view p = None then p
      else
        let p1 = postMessage (SetThinking True) (postMessage (AddMessage ''user'' message) p) in
        (case workspaceFolders p1 of
           None \<Rightarrow> handler_catch ''Please open a workspace folder first'' ''Failed to start workflow'' p1
         | Some [] \<Rightarrow> handler_catch ''Please open a workspace folder first'' ''Failed to start workflow'' p1
         | Some (folder # _) \<Rightarrow>
             (case startWorkflow bc message folder of (sent, r) \<Rightarrow>
                let p2 = p1\<lparr>http_sent := http_sent p1 @ sent\<rparr> in
                (case r of
                   Inl e \<Rightarrow> handler_catch (err_message e) ''Failed to start workflow'' p2
                 | Inr session \<Rightarrow>
                     (if session = JNull then
                        handler_catch (null_read_message ''session_id'') ''Failed to start workflow'' p2
                      else
                        connectToWorkflow bc ticks
                          (p2\<lparr>currentSessionId := js_prop session ''session_id''\<rparr>))))))"

text \<open>
  The two texts \<^verbatim>\<open>handleReviewSubmission\<close> shows. Each starts with a symbol outside ASCII,
  given here by the bytes the source file holds for it.
\<close>

definition approved_text :: string where
  "approved_text =
     [CHR 0xE2, CHR 0x80, CHR 0x9A, CHR 0xC3, CHR 0xBA, CHR 0xC3, CHR 0x96] @
     '' Work approved! Workflow complete.''"

definition revising_text :: string where
  "revising_text =
     [CHR 0xEF, CHR 0xA3, CHR 0xBF, CHR 0xC3, CHR 0xBC, CHR 0xC3, CHR 0xAE, CHR 0xC3, CHR 0x91] @
     '' Creating new plan based on your feedback...''"

text \<open>
  \<^verbatim>\<open>handleReviewSubmission(feedback, action)\<close>, given the events of the socket it may
  open. Without a session id or a view it returns at once. Otherwise it posts the
  review; if that fails, its \<^verbatim>\<open>catch\<close> shows the error. After an approval it shows the
  approval text and switches the thinking indicator off; otherwise it shows the revision
  text, switches the indicator on and connects again.
\<close>

definition handleReviewSubmission ::
    "backend_client \<Rightarrow> ws_event list list \<Rightarrow> string \<Rightarrow> review_action \<Rightarrow> provider \<Rightarrow> provider" where
  "handleReviewSubmission bc ticks feedback action p =
     (if \<not> js_truthy (currentSessionId p) \<or> view p = None then p
      else
        (case submitReview bc (currentSessionId p) feedback (action_string action) of (sent, r) \<Rightarrow>
           let p1 = p\<lparr>http_sent := http_sent p @ sent\<rparr> in
           (case r of
              Inl e \<Rightarrow> handler_catch (err_message e) ''Failed to submit review'' p1
            | Inr _ \<Rightarrow>
                (if action = Approve then
                   postMessage (SetThinking False)
                     (postMessage (AddMessage ''assistant'' approved_text) p1)
                 else
                   connectToWorkflow bc ticks
                     (postMessage (SetThinking True)
                        (postMessage (AddMessage ''assistant'' revising_text) p1))))))"



section \<open>The push channel\<close>

text \<open>
  Modelled from the spec: the server end of the per-session push channel is not among
  the sources. The spec (section 6) gives it as a channel of typed events of four kinds,
  \<^verbatim>\<open>{step_update | review_required | workflow_complete | error}\<close>; an event goes over the
  wire as a JSON object whose \<^verbatim>\<open>type\<close> is the kind, followed by its payload.
\<close>

datatype push_kind = StepUpdate | ReviewRequired | WorkflowComplete | ErrorEvent

fun kind_type :: "push_kind \<Rightarrow> string" where
  "kind_type StepUpdate = ''step_update''"
| "kind_type ReviewRequired = ''review_required''"
| "kind_type WorkflowComplete = ''workflow_complete''"
| "kind_type ErrorEvent = ''error''"

definition push_event :: "push_kind \<Rightarrow> (string \<times> json) list \<Rightarrow> json" where
  "push_event k payload = JObj ((''type'', JStr (kind_type k)) # payload)"

text \<open>
  The message types on which the handler settles the promise, and the socket events
  that leave the promise and the socket as they are: every event but a message of such a
  type and a socket error.
\<close>

definition terminal_type :: "json option \<Rightarrow> bool" where
  "terminal_type t =
     (t = Some (JStr ''review_required'') \<or> t = Some (JStr ''workflow_complete'') \<or>
      t = Some (JStr ''error''))"

text \<open>
  What a message of such a type does to a pending promise: \<^verbatim>\<open>review_required\<close> and
  \<^verbatim>\<open>workflow_complete\<close> resolve it, \<^verbatim>\<open>error\<close> rejects it with the Error made from the
  message's \<^verbatim>\<open>message\<close>, if that Error can be made. \<open>None\<close> for every other message.
\<close>

definition settlement :: "json \<Rightarrow> promise_state option" where
  "settlement m =
     (let t = js_prop m ''type'' in
      if t = Some (JStr ''review_required'') \<or> t = Some (JStr ''workflow_complete'') then Some Resolved
      else if t = Some (JStr ''error'') then
        (case new_Error (js_prop m ''message'') of None \<Rightarrow> None | Some e \<Rightarrow> Some (Rejected e))
      else None)"

fun quiet :: "ws_event \<Rightarrow> bool" where
  "quiet (WsMessage (Parsed m)) = (\<not> terminal_type (js_prop m ''type''))"
| "quiet (WsMessage Malformed) = True"
| "quiet (WsError e) = False"
| "quiet WsOpen = True"
| "quiet WsClose = True"

text \<open>
  Two provider states that differ at most in the view: the handlers of socket events
  only post to the view.
\<close>

definition same_env :: "provider \<Rightarrow> provider \<Rightarrow> bool" where
  "same_env p q \<longleftrightarrow>
     currentSessionId q = currentSessionId p \<and> http_sent q = http_sent p \<and>
     ws_opened q = ws_opened p \<and> workspaceFolders q = workspaceFolders p \<and>
     docs_opened q = docs_opened p"

text \<open>
  The sockets a call of \<^verbatim>\<open>connectToWorkflow\<close> opens: one on the session's URL when the
  session id converts and the constructor accepts the URL, none otherwise.
\<close>

definition opened_by :: "backend_client \<Rightarrow> json option \<Rightarrow> string list" where
  "opened_by bc sid =
     (case ws_url (baseUrl bc) sid of
        None \<Rightarrow> []
      | Some url \<Rightarrow> (if new_WebSocket bc url = None then [url] else []))"

section \<open>The workflow engine\<close>

text \<open>
  Modelled from the spec: the workflow engine, its governance layer, the checkpoint
  store and the session manager run on the server, and none of that code is among the
  sources (the repository holds the client and the README). The definitions of this
  section follow the spec's sections 3, 4.1 to 4.4 and 9.
\<close>

text \<open>Modelled from the spec: the status of a workflow and the closed set of stages.\<close>

datatype wf_status = RUNNING | PAUSED | COMPLETED | FAILED | TIMED_OUT

datatype stage_name = Entry | Plan | Generate | Debug | Review

text \<open>Modelled from the spec: a step of the plan and the WorkflowState of section 3.\<close>

record plan_step =
  instruction :: string
  step_done :: bool

record workflow_state =
  thread_id :: string
  user_request :: string
  plan :: "plan_step list"
  generated_files :: "(string \<times> string) list"
  conversation_history :: "(string \<times> string) list"
  active_stage :: stage_name
  step_index :: nat
  needs_review :: bool
  review_feedback :: "string option"
  status :: wf_status
  node_execution_count :: nat
  started_at :: nat

text \<open>
  Modelled from the spec: the stage capability interface of section 6. A stage returns
  the new state and a routing decision, or fails with an unrecoverable error. The stages
  themselves are supplied from outside: the registry is a parameter.
\<close>

datatype routing = NEXT stage_name | INTERRUPT | DONE bool

type_synonym stage_capability = "workflow_state \<Rightarrow> string + workflow_state \<times> routing"

type_synonym stage_registry = "stage_name \<Rightarrow> stage_capability"

text \<open>
  Modelled from the spec: the governance bounds of section 4.2, the maximum number of
  node executions and the maximum duration. The wall clock is read before each node;
  \<open>clock g k\<close> is the time read when \<open>k\<close> nodes have been executed.
\<close>

record governance =
  max_nodes :: nat
  max_duration :: nat
  clock :: "nat \<Rightarrow> nat"

text \<open>
  Modelled from the spec: what one call into the engine returns. Besides the final state
  and the error, if any, it lists the checkpoints written (oldest first) and the
  iterations of the execution loop: a stage invoked on a state, or a halt by the
  governance check.
\<close>

datatype iteration = Invoked stage_name workflow_state | Halted wf_status

record execution_result =
  final :: workflow_state
  failure :: "string option"
  written :: "workflow_state list"
  iterations :: "iteration list"


definition halt :: "wf_status \<Rightarrow> string \<Rightarrow> workflow_state \<Rightarrow> execution_result" where
  "halt st msg s =
     \<lparr>final = s\<lparr>status := st\<rparr>, failure = Some msg, written = [], iterations = [Halted st]\<rparr>"

text \<open>
  Modelled from the spec: step (e) of the execution loop of section 4.1. An interrupt
  pauses for review, a terminal decision completes or fails, anything else names the
  next stage.
\<close>

fun apply_routing :: "routing \<Rightarrow> workflow_state \<Rightarrow> workflow_state" where
  "apply_routing INTERRUPT s = s\<lparr>status := PAUSED, needs_review := True\<rparr>"
| "apply_routing (DONE ok) s = s\<lparr>status := (if ok then COMPLETED else FAILED)\<rparr>"
| "apply_routing (NEXT n) s = s\<lparr>active_stage := n\<rparr>"

text \<open>Modelled from the spec: one more iteration and checkpoint in front of a result.\<close>

definition after :: "iteration \<Rightarrow> workflow_state \<Rightarrow> execution_result \<Rightarrow> execution_result" where
  "after it s r = r\<lparr>written := s # written r, iterations := it # iterations r\<rparr>"

text \<open>
  Modelled from the spec: the execution loop of section 4.1. For each node: (a) the
  governance check, the deadline first and then the step ceiling ("if reached, halt"),
  which halts with TIMED_OUT or with FAILED and the error "step limit exceeded";
  (b) the stage of \<open>active_stage\<close> is invoked; (c) the count of executed nodes is
  incremented; (d) a checkpoint is written; (e) the routing is applied. The counter and
  the start time belong to the engine: whatever the stage returns for them is
  overwritten. The checkpoint holds the state with the routing applied, since \<open>resume\<close>
  reads the PAUSED status from the latest checkpoint. A stage that fails marks the
  workflow FAILED with the error in the conversation history. The loop ends after at
  most \<open>max_nodes\<close> nodes, which is its termination argument.

  On resumption the first node is the pending review stage, whose outcome the session
  manager has decided (section 4.4): \<open>pending\<close> is the capability that stands for it in
  that one node execution, and \<open>None\<close> in every other.
\<close>

definition node_capability :: "stage_registry \<Rightarrow> stage_capability option \<Rightarrow> workflow_state \<Rightarrow> stage_capability" where
  "node_capability stages pending s =
     (case pending of None \<Rightarrow> stages (active_stage s) | Some cap \<Rightarrow> cap)"

function run ::
    "governance \<Rightarrow> stage_registry \<Rightarrow> stage_capability option \<Rightarrow> workflow_state \<Rightarrow> execution_result" where
  "run g stages pending s =
     (if started_at s + max_duration g < clock g (node_execution_count s) then
        halt TIMED_OUT ''workflow timed out'' s
      else if max_nodes g \<le> node_execution_count s then
        halt FAILED ''step limit exceeded'' s
      else
        (case node_capability stages pending s s of
           Inl err \<Rightarrow>
             (let s' = s\<lparr>status := FAILED,
                         conversation_history := conversation_history s @ [(''error'', err)],
                         node_execution_count := Suc (node_execution_count s)\<rparr>
              in \<lparr>final = s', failure = Some err, written = [s'],
                  iterations = [Invoked (active_stage s) s]\<rparr>)
         | Inr (s1, r) \<Rightarrow>
             (let s2 = apply_routing r
                         (s1\<lparr>node_execution_count := Suc (node_execution_count s),
                             started_at := started_at s\<rparr>)
              in (case r of
                    NEXT n \<Rightarrow> after (Invoked (active_stage s) s) s2 (run g stages None s2)
                  | _ \<Rightarrow> \<lparr>final = s2, failure = None, written = [s2],
                           iterations = [Invoked (active_stage s) s]\<rparr>))))"
  by pat_completeness auto
termination
  by (relation "measure (\<lambda>(g, stages, pending, s). max_nodes g - node_execution_count s)") auto

declare run.simps [simp del]





text \<open>Modelled from the spec: the errors of section 7 that the entry points return.\<close>

datatype engine_error = ValidationError | NotFoundError | InvalidStateError

text \<open>
  Modelled from the spec: \<open>start\<close> of section 4.1 checks that the initial state is
  RUNNING and runs the graph from the entry stage.
\<close>

definition start :: "governance \<Rightarrow> stage_registry \<Rightarrow> workflow_state \<Rightarrow> engine_error + execution_result" where
  "start g stages initial_state =
     (if status initial_state \<noteq> RUNNING then Inl InvalidStateError
      else Inr (run g stages None (initial_state\<lparr>active_stage := Entry\<rparr>)))"








section \<open>Example values\<close>

text \<open>
  A client whose server accepts every request and answers a start request with a
  session, one whose server answers a start request without a session id, and one
  whose WebSocket constructor refuses every URL; providers with and without a workspace folder and with a session under review; a page with
  feedback typed in; some push messages, one of them an error whose \<^verbatim>\<open>message\<close> cannot
  be converted to a string; and a paused workflow with its store, sessions and bounds.
\<close>

definition example_client :: backend_client where
  "example_client =
     \<lparr>api = (\<lambda>r. if http_path r = ''/workflow/start''
                 then Inr (JObj [(''session_id'', JStr ''s-1''), (''status'', JStr ''started''),
                                 (''message'', JStr ''ok'')])
                 else Inr (JObj [])),
      baseUrl = ''https://api.example.org'', build = Logged, new_WebSocket = (\<lambda>url. None)\<rparr>"

definition anonymous_client :: backend_client where
  "anonymous_client = example_client\<lparr>api := (\<lambda>r. Inr (JObj [(''status'', JStr ''started'')]))\<rparr>"

definition refusing_client :: backend_client where
  "refusing_client = example_client\<lparr>new_WebSocket := (\<lambda>url. Some (Error ''Invalid URL''))\<rparr>"

definition example_provider :: provider where
  "example_provider =
     \<lparr>view = Some [], currentSessionId = None, workspaceFolders = Some [''/home/u/proj''],
      http_sent = [], ws_opened = [], docs_opened = []\<rparr>"

definition example_no_folder :: provider where
  "example_no_folder =
     \<lparr>view = Some [], currentSessionId = None, workspaceFolders = None,
      http_sent = [], ws_opened = [], docs_opened = []\<rparr>"

definition example_reviewing :: provider where
  "example_reviewing =
     \<lparr>view = Some [], currentSessionId = Some (JStr ''s-1''), workspaceFolders = Some [''/home/u/proj''],
      http_sent = [], ws_opened = [], docs_opened = []\<rparr>"


definition example_error :: json where
  "example_error = JObj [(''type'', JStr ''error''), (''message'', JStr ''step limit exceeded'')]"


definition example_step :: json where
  "example_step = JObj [(''type'', JStr ''step_update''), (''current_step'', JNum ''1'')]"

definition example_review :: json where
  "example_review = JObj [(''type'', JStr ''review_required''), (''plan'', JArr [])]"











section \<open>Properties of the connection\<close>

lemma promise_call_cb: "promise (call_cb cb a c) = promise c"
  by (simp add: call_cb_def split: option.splits)

lemma close_calls_call_cb: "close_calls (call_cb cb a c) = close_calls c"
  by (simp add: call_cb_def split: option.splits)

lemma socket_call_cb: "socket (call_cb cb a c) = socket c"
  by (simp add: call_cb_def split: option.splits)

lemma caller_call_cb:
  "caller (call_cb cb a c) = (case cb of None \<Rightarrow> caller c | Some f \<Rightarrow> f a (caller c))"
  by (simp add: call_cb_def split: option.splits)

lemma caller_resolve: "caller (resolve c) = caller c"
  by (simp add: resolve_def)

lemma caller_reject: "caller (reject e c) = caller c"
  by (simp add: reject_def)

lemma caller_ws_close: "caller (ws_close c) = caller c"
  by (simp add: ws_close_def)

lemma close_calls_resolve: "close_calls (resolve c) = close_calls c"
  by (simp add: resolve_def)

lemma close_calls_reject: "close_calls (reject e c) = close_calls c"
  by (simp add: reject_def)

lemma socket_resolve: "socket (resolve c) = socket c"
  by (simp add: resolve_def)

lemma socket_reject: "socket (reject e c) = socket c"
  by (simp add: reject_def)

lemma socket_ws_close: "socket (ws_close c) = socket c"
  by (simp add: ws_close_def)

lemma promise_ws_close: "promise (ws_close c) = promise c"
  by (simp add: ws_close_def)

lemma promise_resolve: "promise (resolve c) = (if promise c = Pending then Resolved else promise c)"
  by (simp add: resolve_def)

lemma promise_reject: "promise (reject e c) = (if promise c = Pending then Rejected e else promise c)"
  by (simp add: reject_def)

lemma close_calls_ws_close: "close_calls (ws_close c) = Suc (close_calls c)"
  by (simp add: ws_close_def)

lemma promise_handler_throws: "promise (handler_throws b x c) = promise c"
  by (simp add: handler_throws_def split: client_build.splits)

lemma close_calls_handler_throws: "close_calls (handler_throws b x c) = close_calls c"
  by (simp add: handler_throws_def split: client_build.splits)

lemma caller_handler_throws: "caller (handler_throws b x c) = caller c"
  by (simp add: handler_throws_def split: client_build.splits)

lemma socket_handler_throws: "socket (handler_throws b x c) = socket c"
  by (simp add: handler_throws_def split: client_build.splits)

lemmas conn_simps = promise_call_cb close_calls_call_cb socket_call_cb caller_call_cb
  caller_resolve caller_reject caller_ws_close close_calls_resolve close_calls_reject
  socket_resolve socket_reject socket_ws_close promise_ws_close promise_resolve
  promise_reject close_calls_ws_close promise_handler_throws close_calls_handler_throws
  caller_handler_throws socket_handler_throws

lemma run_events_append:
  "run_events b cbs (xs @ ys) c = run_events b cbs ys (run_events b cbs xs c)"
  by (induction xs arbitrary: c) simp_all

text \<open>The handlers leave the socket as it is.\<close>

lemma socket_on_event: "socket (on_event b cbs ev c) = socket c"
  by (cases ev)
    (auto simp: on_event_def on_message_def dispatch_def Let_def conn_simps
          split: ws_data.splits option.splits)

lemma socket_run_events: "socket (run_events b cbs evs c) = socket c"
  by (induction evs arbitrary: c) (simp_all add: socket_on_event)

text \<open>Without a socket nothing happens.\<close>

lemma no_socket_run_events: "\<not> socket c \<Longrightarrow> run_events b cbs evs c = c"
  by (induction evs arbitrary: c) (simp_all add: on_event_def)

text \<open>Once settled, the promise stays as it is, whatever arrives.\<close>

lemma settled_on_event: "promise c \<noteq> Pending \<Longrightarrow> promise (on_event b cbs ev c) = promise c"
  by (cases ev)
    (auto simp: on_event_def on_message_def dispatch_def Let_def conn_simps
          split: ws_data.splits option.splits)

lemma settled_run_events: "promise c \<noteq> Pending \<Longrightarrow> promise (run_events b cbs evs c) = promise c"
  by (induction evs arbitrary: c) (simp_all add: settled_on_event)

subsection \<open>The endpoint\<close>

lemma replace_http_prefix: "replace_http (''http'' @ rest) = ''ws'' @ rest"
  by (simp add: replace_http_def)

lemma replace_http_other: "take 4 base \<noteq> ''http'' \<Longrightarrow> replace_http base = base"
  by (simp add: replace_http_def)

lemma conn_url_string:
  "conn_url (connectWebSocket bc (Some (JStr sid)) u) = Some (replace_http (baseUrl bc) @ ''/ws/'' @ sid)"
  by (simp add: connectWebSocket_def ws_url_def js_template_def split: option.splits)

text \<open>
  C10. The endpoint \<^verbatim>\<open>connectWebSocket\<close> opens is the base URL
  with only a leading \<^verbatim>\<open>http\<close> replaced by
  \<^verbatim>\<open>ws\<close>, followed by \<^verbatim>\<open>/ws/\<close> and the
  session id: a base \<^verbatim>\<open>http\<close> + rest becomes
  \<^verbatim>\<open>ws\<close> + rest with rest untouched (so
  \<^verbatim>\<open>https://\<close> becomes \<^verbatim>\<open>wss://\<close>, and a
  later \<^verbatim>\<open>http\<close> inside rest stays), and a base that does not
  start with \<^verbatim>\<open>http\<close> is left unchanged.
\<close>

theorem ws_endpoint:
  "conn_url (connectWebSocket (bc\<lparr>baseUrl := ''http'' @ rest\<rparr>) (Some (JStr sid)) u) =
     Some (''ws'' @ rest @ ''/ws/'' @ sid)
   \<and> conn_url (connectWebSocket (bc\<lparr>baseUrl := ''https://'' @ host\<rparr>) (Some (JStr sid)) u) =
     Some (''wss://'' @ host @ ''/ws/'' @ sid)
   \<and> conn_url (connectWebSocket bc (Some (JStr sid)) u) =
       Some ((if take 4 (baseUrl bc) = ''http'' then ''ws'' @ drop 4 (baseUrl bc) else baseUrl bc)
             @ ''/ws/'' @ sid)"
  by (simp add: conn_url_string replace_http_def)

subsection \<open>Dispatch\<close>

lemma type_push_event: "js_prop (push_event k payload) ''type'' = Some (JStr (kind_type k))"
  by (simp add: push_event_def js_prop_def)

lemma push_event_not_null: "push_event k payload \<noteq> JNull"
  by (simp add: push_event_def)

text \<open>
  C7. The push channel emits typed events of the four kinds
  \<^verbatim>\<open>step_update\<close>, \<^verbatim>\<open>review_required\<close>,
  \<^verbatim>\<open>workflow_complete\<close> and \<^verbatim>\<open>error\<close>
  (the type \<open>push_kind\<close>), and for a received message of each kind the
  client, in either build, calls the corresponding callback with the message, when that
  callback was given: \<^verbatim>\<open>onStepUpdate\<close>,
  \<^verbatim>\<open>onReviewRequired\<close>, \<^verbatim>\<open>onComplete\<close>,
  \<^verbatim>\<open>onError\<close>; and no other callback.
\<close>

theorem dispatch_by_kind:
  "caller (on_message b cbs (Parsed (push_event StepUpdate pl)) c) =
     (case onStepUpdate cbs of None \<Rightarrow> caller c | Some f \<Rightarrow> f (push_event StepUpdate pl) (caller c))
   \<and> caller (on_message b cbs (Parsed (push_event ReviewRequired pl)) c) =
     (case onReviewRequired cbs of None \<Rightarrow> caller c | Some f \<Rightarrow> f (push_event ReviewRequired pl) (caller c))
   \<and> caller (on_message b cbs (Parsed (push_event WorkflowComplete pl)) c) =
     (case onComplete cbs of None \<Rightarrow> caller c | Some f \<Rightarrow> f (push_event WorkflowComplete pl) (caller c))
   \<and> caller (on_message b cbs (Parsed (push_event ErrorEvent pl)) c) =
     (case onError cbs of None \<Rightarrow> caller c | Some f \<Rightarrow> f (ErrMessage (push_event ErrorEvent pl)) (caller c))"
proof -
  have e: "caller (on_message b cbs (Parsed (push_event ErrorEvent pl)) c) =
     (case onError cbs of None \<Rightarrow> caller c | Some f \<Rightarrow> f (ErrMessage (push_event ErrorEvent pl)) (caller c))"
    by (cases "new_Error (js_prop (push_event ErrorEvent pl) ''message'')")
      (simp_all add: on_message_def dispatch_def Let_def type_push_event push_event_not_null conn_simps)
  show ?thesis
    using e
    by (simp add: on_message_def dispatch_def Let_def type_push_event push_event_not_null conn_simps)
qed

lemma other_types_ignored:
  "m \<noteq> JNull \<Longrightarrow> js_prop m ''type'' \<noteq> Some (JStr ''step_update'') \<Longrightarrow>
   \<not> terminal_type (js_prop m ''type'') \<Longrightarrow> on_message b cbs (Parsed m) c = c"
  by (simp add: on_message_def dispatch_def Let_def terminal_type_def)

subsection \<open>Settling the promise\<close>

lemma quiet_on_event:
  "quiet ev \<Longrightarrow> promise (on_event b cbs ev c) = promise c \<and> close_calls (on_event b cbs ev c) = close_calls c"
  by (cases ev rule: quiet.cases)
    (auto simp: on_event_def on_message_def dispatch_def Let_def conn_simps terminal_type_def)

lemma quiet_run_events:
  "\<forall>ev\<in>set evs. quiet ev \<Longrightarrow>
   promise (run_events b cbs evs c) = promise c \<and> close_calls (run_events b cbs evs c) = close_calls c"
  by (induction evs arbitrary: c) (simp_all add: quiet_on_event)

lemma step_update_keeps:
  "js_prop s ''type'' = Some (JStr ''step_update'') \<Longrightarrow>
   promise (on_message b cbs (Parsed s) c) = promise c \<and>
   close_calls (on_message b cbs (Parsed s) c) = close_calls c"
  by (auto simp: on_message_def dispatch_def Let_def conn_simps js_prop_def)

lemma settlement_on_message:
  "settlement m = Some st \<Longrightarrow> promise c = Pending \<Longrightarrow>
   promise (on_message b cbs (Parsed m) c) = st \<and>
   close_calls (on_message b cbs (Parsed m) c) = Suc (close_calls c)"
  by (auto simp: settlement_def on_message_def dispatch_def Let_def conn_simps js_prop_def
      split: if_splits option.splits)

lemma settlement_settled: "settlement m = Some st \<Longrightarrow> st \<noteq> Pending"
  by (auto simp: settlement_def Let_def split: if_splits option.splits)

text \<open>A URL the constructor refuses: the promise is rejected at once and nothing is called.\<close>

lemma refused_url_rejects:
  "ws_url (baseUrl bc) sid = Some url \<Longrightarrow> new_WebSocket bc url = Some e \<Longrightarrow>
   run_events b cbs evs (connectWebSocket bc sid u) =
     \<lparr>conn_url = Some url, socket = False, promise = Rejected e, close_calls = 0,
      uncaught = [], caller = u\<rparr>"
  by (simp add: no_socket_run_events connectWebSocket_def)

text \<open>
  C9, as the claim states it, fails: the promise also settles without any message. When
  the socket reports an error (here the connection is refused), the promise is rejected
  with the socket's error and \<^verbatim>\<open>ws.close()\<close> is not called. And
  when the constructor refuses the URL, the promise is rejected at once, and a
  \<^verbatim>\<open>review_required\<close> message would change nothing.
\<close>

theorem socket_error_settles_counterexample:
  "promise (run_events Logged sidebar_callbacks [WsOpen, WsError (Error ''connect ECONNREFUSED'')]
      (connectWebSocket example_client (Some (JStr ''s-1'')) example_provider)) =
     Rejected (Error ''connect ECONNREFUSED'')
   \<and> close_calls (run_events Logged sidebar_callbacks [WsOpen, WsError (Error ''connect ECONNREFUSED'')]
      (connectWebSocket example_client (Some (JStr ''s-1'')) example_provider)) = 0
   \<and> promise (connectWebSocket refusing_client (Some (JStr ''s-1'')) example_provider) =
     Rejected (Error ''Invalid URL'')
   \<and> promise (run_events Logged sidebar_callbacks [WsMessage (Parsed example_review)]
      (connectWebSocket refusing_client (Some (JStr ''s-1'')) example_provider)) =
     Rejected (Error ''Invalid URL'')"
  by (simp add: on_event_def connectWebSocket_def conn_simps ws_url_def js_template_def
      example_client_def refusing_client_def)

text \<open>
  C9, amended. For every call to BackendClient.connectWebSocket that constructs its
  socket, the returned promise is pending and the socket not closed as long as neither
  a message of type review_required, workflow_complete or error nor a socket 'error'
  event has arrived; the first message of type review_required or workflow_complete
  resolves it, the first message of type error whose message an Error can be made from
  rejects it with that Error, the WebSocket is closed once at that message, and
  whatever arrives later leaves the promise as settled; a socket 'error' event that
  arrives first calls onError with the error, rejects the promise with it and does not
  close the WebSocket. A step_update message never settles the promise or closes the
  connection. Here \<open>pre\<close> are the events before, \<open>post\<close> the
  events after, and \<open>settlement\<close> says what a message does to a pending
  promise.
\<close>

theorem promise_settles:
  assumes sock: "socket (connectWebSocket bc sid u)"
    and pre: "\<forall>ev\<in>set pre. quiet ev"
    and m: "settlement m = Some st"
    and s: "js_prop s ''type'' = Some (JStr ''step_update'')"
  shows "promise (run_events b cbs pre (connectWebSocket bc sid u)) = Pending
    \<and> close_calls (run_events b cbs pre (connectWebSocket bc sid u)) = 0
    \<and> promise (run_events b cbs (pre @ [WsMessage (Parsed m)] @ post) (connectWebSocket bc sid u)) = st
    \<and> st \<noteq> Pending
    \<and> close_calls (run_events b cbs (pre @ [WsMessage (Parsed m)]) (connectWebSocket bc sid u)) = 1
    \<and> promise (run_events b cbs (pre @ [WsError e] @ post) (connectWebSocket bc sid u)) = Rejected e
    \<and> close_calls (run_events b cbs (pre @ [WsError e]) (connectWebSocket bc sid u)) = 0
    \<and> caller (run_events b cbs (pre @ [WsError e]) (connectWebSocket bc sid u)) =
        (case onError cbs of
           None \<Rightarrow> caller (run_events b cbs pre (connectWebSocket bc sid u))
         | Some f \<Rightarrow> f (ErrObject e) (caller (run_events b cbs pre (connectWebSocket bc sid u))))
    \<and> promise (on_message b cbs (Parsed s) c) = promise c
    \<and> close_calls (on_message b cbs (Parsed s) c) = close_calls c"
proof -
  let ?c0 = "connectWebSocket bc sid u"
  let ?c1 = "run_events b cbs pre ?c0"
  have c0: "promise ?c0 = Pending" "close_calls ?c0 = 0"
    using sock by (auto simp: connectWebSocket_def split: option.splits)
  have c1: "promise ?c1 = Pending" "close_calls ?c1 = 0"
    using quiet_run_events [OF pre, of b cbs ?c0] c0 by simp_all
  have s1: "socket ?c1"
    using sock by (simp add: socket_run_events)
  have t: "promise (on_message b cbs (Parsed m) ?c1) = st"
    "close_calls (on_message b cbs (Parsed m) ?c1) = 1"
    using settlement_on_message [OF m c1(1), of b cbs] c1(2) by simp_all
  have t_settled: "promise (on_message b cbs (Parsed m) ?c1) \<noteq> Pending"
    using t(1) settlement_settled [OF m] by simp
  have after_m: "promise (run_events b cbs (pre @ [WsMessage (Parsed m)] @ post) ?c0) =
      promise (on_message b cbs (Parsed m) ?c1)"
    using settled_run_events [OF t_settled, of b cbs post] s1
    by (simp add: run_events_append on_event_def)
  have e1: "promise (on_event b cbs (WsError e) ?c1) = Rejected e"
    "close_calls (on_event b cbs (WsError e) ?c1) = 0"
    "caller (on_event b cbs (WsError e) ?c1) =
        (case onError cbs of None \<Rightarrow> caller ?c1 | Some f \<Rightarrow> f (ErrObject e) (caller ?c1))"
    using c1 s1 by (simp_all add: on_event_def conn_simps)
  have after_e: "promise (run_events b cbs (pre @ [WsError e] @ post) ?c0) = Rejected e"
    using settled_run_events [of "on_event b cbs (WsError e) ?c1" b cbs post] e1(1)
    by (simp add: run_events_append)
  show ?thesis
    using c1 s1 t after_m e1 after_e step_update_keeps [OF s, of b cbs c] settlement_settled [OF m]
    by (simp add: run_events_append on_event_def)
qed

text \<open>
  The amended C9 at a concrete run of the plain build: the socket opens, a step update
  arrives, then \<^verbatim>\<open>review_required\<close>, then an
  \<^verbatim>\<open>error\<close> message and the close. The promise is resolved, and
  stays so.
\<close>

theorem promise_settles_witness:
  "socket (connectWebSocket example_client (Some (JStr ''s-1'')) example_provider)
   \<and> quiet WsOpen \<and> quiet (WsMessage (Parsed example_step))
   \<and> settlement example_review = Some Resolved
   \<and> js_prop example_step ''type'' = Some (JStr ''step_update'')
   \<and> promise (run_events Plain sidebar_callbacks
        ([WsOpen, WsMessage (Parsed example_step)] @ [WsMessage (Parsed example_review)] @
         [WsMessage (Parsed example_error), WsClose])
        (connectWebSocket example_client (Some (JStr ''s-1'')) example_provider)) = Resolved
   \<and> close_calls (run_events Plain sidebar_callbacks
        ([WsOpen, WsMessage (Parsed example_step)] @ [WsMessage (Parsed example_review)])
        (connectWebSocket example_client (Some (JStr ''s-1'')) example_provider)) = 1"
proof -
  have k: "socket (connectWebSocket example_client (Some (JStr ''s-1'')) example_provider)"
    by (simp add: connectWebSocket_def ws_url_def js_template_def example_client_def)
  have q: "\<forall>ev\<in>set [WsOpen, WsMessage (Parsed example_step)]. quiet ev"
    by (simp add: example_step_def js_prop_def terminal_type_def)
  have t: "settlement example_review = Some Resolved"
    by (simp add: example_review_def js_prop_def settlement_def)
  have s: "js_prop example_step ''type'' = Some (JStr ''step_update'')"
    by (simp add: example_step_def js_prop_def)
  show ?thesis
    using promise_settles [OF k q t s, of Plain sidebar_callbacks
        "[WsMessage (Parsed example_error), WsClose]"] k q t s
    by simp
qed

section \<open>Properties of the provider\<close>

lemma postMessage_fields:
  "currentSessionId (postMessage m p) = currentSessionId p"
  "http_sent (postMessage m p) = http_sent p"
  "ws_opened (postMessage m p) = ws_opened p"
  "workspaceFolders (postMessage m p) = workspaceFolders p"
  "docs_opened (postMessage m p) = docs_opened p"
  by (simp_all add: postMessage_def split: option.splits)

lemma view_postMessage:
  "view (postMessage m p) = (case view p of None \<Rightarrow> None | Some ms \<Rightarrow> Some (ms @ [m]))"
  by (simp add: postMessage_def split: option.splits)

lemma same_env_refl: "same_env p p"
  by (simp add: same_env_def)

lemma same_env_trans: "same_env p q \<Longrightarrow> same_env q r \<Longrightarrow> same_env p r"
  by (simp add: same_env_def)

lemma same_env_postMessage: "same_env p (postMessage m p)"
  by (simp add: same_env_def postMessage_fields)

lemma same_env_post2: "same_env p (postMessage m (postMessage n p))"
  by (simp add: same_env_def postMessage_fields)

lemma same_env_dispatch: "same_env (caller c) (caller (dispatch b sidebar_callbacks m c))"
  by (simp add: dispatch_def Let_def conn_simps sidebar_callbacks_def same_env_refl
      same_env_postMessage same_env_post2 split: option.splits)

lemma same_env_on_event: "same_env (caller c) (caller (on_event b sidebar_callbacks ev c))"
proof (cases ev)
  case (WsMessage d)
  then show ?thesis
    by (cases d)
      (simp_all add: on_event_def on_message_def conn_simps same_env_refl same_env_dispatch)
next
  case (WsError e)
  then show ?thesis
    by (simp add: on_event_def conn_simps sidebar_callbacks_def same_env_post2 same_env_refl)
qed (simp_all add: on_event_def same_env_refl)

lemma same_env_run_events: "same_env (caller c) (caller (run_events b sidebar_callbacks evs c))"
proof (induction evs arbitrary: c)
  case Nil
  show ?case by (simp add: same_env_refl)
next
  case (Cons ev evs)
  show ?case
    using same_env_on_event [of c b ev] Cons [of "on_event b sidebar_callbacks ev c"]
    by (auto intro: same_env_trans)
qed

lemma same_env_sidebar_tick: "same_env (caller c) (caller (sidebar_tick b evs c))"
proof -
  have "same_env (caller (run_events b sidebar_callbacks evs c))
      (connect_catch e (caller (run_events b sidebar_callbacks evs c)))" for e
    by (simp add: connect_catch_def same_env_post2)
  then show ?thesis
    using same_env_run_events [of c b evs]
    by (auto simp: sidebar_tick_def Let_def split: promise_state.splits intro: same_env_trans)
qed

lemma same_env_sidebar_ticks: "same_env (caller c) (caller (sidebar_ticks b ticks c))"
proof (induction ticks arbitrary: c)
  case Nil
  show ?case by (simp add: same_env_refl)
next
  case (Cons evs ticks)
  show ?case
    using same_env_sidebar_tick [of c b evs] Cons [of "sidebar_tick b evs c"]
    by (auto intro: same_env_trans)
qed

lemma same_env_connect_run:
  "same_env (p\<lparr>ws_opened := ws_opened p @ opened_by bc (currentSessionId p)\<rparr>)
     (caller (connect_run bc ticks p))"
proof (cases "ws_url (baseUrl bc) (currentSessionId p)")
  case None
  then show ?thesis
    by (simp add: connect_run_def connectWebSocket_def opened_by_def connect_catch_def
        same_env_def postMessage_fields)
next
  case (Some url)
  show ?thesis
  proof (cases "new_WebSocket bc url")
    case None
    let ?c = "\<lparr>conn_url = Some url, socket = True, promise = Pending, close_calls = 0,
        uncaught = [], caller = p\<lparr>ws_opened := ws_opened p @ [url]\<rparr>\<rparr>"
    have "same_env (caller ?c) (caller (sidebar_ticks (build bc) ticks ?c))"
      by (rule same_env_sidebar_ticks)
    then show ?thesis
      using Some None by (simp add: connect_run_def connectWebSocket_def opened_by_def)
  next
    case (Some e)
    then show ?thesis
      using \<open>ws_url (baseUrl bc) (currentSessionId p) = Some url\<close>
      by (simp add: connect_run_def connectWebSocket_def opened_by_def connect_catch_def
          same_env_def postMessage_fields)
  qed
qed

lemma connectToWorkflow_env:
  "currentSessionId (connectToWorkflow bc ticks p) = currentSessionId p"
  "http_sent (connectToWorkflow bc ticks p) = http_sent p"
  "workspaceFolders (connectToWorkflow bc ticks p) = workspaceFolders p"
  using same_env_connect_run [of p bc ticks]
  by (simp_all add: connectToWorkflow_def same_env_def)

lemma connectToWorkflow_opened:
  "ws_opened (connectToWorkflow bc ticks p) =
     ws_opened p @ (if js_truthy (currentSessionId p) \<and> view p \<noteq> None
                    then opened_by bc (currentSessionId p) else [])"
  using same_env_connect_run [of p bc ticks]
  by (simp add: connectToWorkflow_def same_env_def)

subsection \<open>Errors on the push channel\<close>

lemma error_message_rejects:
  assumes "js_prop m ''type'' = Some (JStr ''error'')"
    and "new_Error (js_prop m ''message'') = Some e"
  shows "on_message b cbs (Parsed m) c =
           reject e (ws_close (call_cb (onError cbs) (ErrMessage m) c))"
proof -
  have "m \<noteq> JNull"
    using assms(1) by (auto simp: js_prop_def)
  then show ?thesis
    using assms by (simp add: on_message_def dispatch_def Let_def)
qed


subsection \<open>Starting a workflow\<close>

text \<open>
  C5, as the claim states it, fails on the client: a successful response need not yield
  a session id. Here the server answers the start request with
  \<^verbatim>\<open>{"status":"started"}\<close>; the client takes the response as it
  is, has no session id afterwards, opens no socket and shows nothing but the user's
  message and the thinking indicator.
\<close>

theorem start_without_session_counterexample:
  "api anonymous_client (start_request ''add a parser'' ''/home/u/proj'') =
     Inr (JObj [(''status'', JStr ''started'')])
   \<and> http_sent (handleUserMessage anonymous_client [] ''add a parser'' example_provider) =
       [start_request ''add a parser'' ''/home/u/proj'']
   \<and> currentSessionId (handleUserMessage anonymous_client [] ''add a parser'' example_provider) = None
   \<and> ws_opened (handleUserMessage anonymous_client [] ''add a parser'' example_provider) = []
   \<and> view (handleUserMessage anonymous_client [] ''add a parser'' example_provider) =
       Some [AddMessage ''user'' ''add a parser'', SetThinking True]"
  by (simp add: anonymous_client_def example_client_def example_provider_def
      handleUserMessage_def startWorkflow_def postMessage_def Let_def js_prop_def
      connectToWorkflow_def)

text \<open>
  C5, amended. For every workflow-start request, the client sends a POST to the start
  endpoint whose body carries the request text (request) and the project context
  (project_path), and returns the response data; in handleUserMessage, with a view and
  a workspace folder, the request carries the user's message and the first folder's
  path, and after a successful response the client's current session id is whatever the
  response data holds as session_id (the session id stays as it was if the data is
  null); when the data holds none, or a falsy one, no socket is opened and the view is
  shown nothing beyond the user's message and the thinking indicator.
\<close>

theorem start_request_sent:
  assumes "view p = Some ms" and "workspaceFolders p = Some (folder # rest)"
    and "api bc (start_request message folder) = Inr session"
  shows "startWorkflow bc request projectPath =
           ([\<lparr>http_method = POST, http_path = ''/workflow/start'',
              http_body = Some (JObj [(''request'', JStr request), (''project_path'', JStr projectPath)])\<rparr>],
            api bc (start_request request projectPath))
    \<and> http_sent (handleUserMessage bc evs message p) =
         http_sent p @ [\<lparr>http_method = POST, http_path = ''/workflow/start'',
              http_body = Some (JObj [(''request'', JStr message), (''project_path'', JStr folder)])\<rparr>]
    \<and> currentSessionId (handleUserMessage bc evs message p) =
         (if session = JNull then currentSessionId p else js_prop session ''session_id'')
    \<and> (session \<noteq> JNull \<and> \<not> js_truthy (js_prop session ''session_id'') \<longrightarrow>
         ws_opened (handleUserMessage bc evs message p) = ws_opened p
         \<and> view (handleUserMessage bc evs message p) =
             Some (ms @ [AddMessage ''user'' message, SetThinking True]))"
proof -
  have quiet: "\<not> js_truthy (currentSessionId q) \<Longrightarrow> connectToWorkflow bc evs q = q" for q
    by (simp add: connectToWorkflow_def)
  show ?thesis
    using assms
    by (auto simp: handleUserMessage_def startWorkflow_def Let_def postMessage_fields
        view_postMessage connectToWorkflow_env start_request_def handler_catch_def quiet)
qed

text \<open>
  The amended C5 at concrete requests: the example server answers with session
  \<^verbatim>\<open>s-1\<close>, the other one without a session id.
\<close>

theorem start_request_sent_witness:
  "view example_provider = Some []
   \<and> workspaceFolders example_provider = Some [''/home/u/proj'']
   \<and> http_sent (handleUserMessage example_client [] ''add a parser'' example_provider) =
       [\<lparr>http_method = POST, http_path = ''/workflow/start'',
         http_body = Some (JObj [(''request'', JStr ''add a parser''),
                                 (''project_path'', JStr ''/home/u/proj'')])\<rparr>]
   \<and> currentSessionId (handleUserMessage example_client [] ''add a parser'' example_provider) =
       Some (JStr ''s-1'')
   \<and> currentSessionId (handleUserMessage anonymous_client [] ''add a parser'' example_provider) = None"
proof -
  have v: "view example_provider = Some []"
    and w: "workspaceFolders example_provider = Some (''/home/u/proj'' # [])"
    and h: "http_sent example_provider = []"
    by (simp_all add: example_provider_def)
  have a: "api example_client (start_request ''add a parser'' ''/home/u/proj'') =
      Inr (JObj [(''session_id'', JStr ''s-1''), (''status'', JStr ''started''), (''message'', JStr ''ok'')])"
    by (simp add: example_client_def start_request_def)
  have a': "api anonymous_client (start_request ''add a parser'' ''/home/u/proj'') =
      Inr (JObj [(''status'', JStr ''started'')])"
    by (simp add: anonymous_client_def example_client_def)
  show ?thesis
    using start_request_sent [OF v w a, of _ _ "[]"] start_request_sent [OF v w a', of _ _ "[]"] v w h
    by (simp add: js_prop_def)
qed

subsection \<open>Submitting a review\<close>

lemma http_sent_review:
  "js_truthy (currentSessionId p) \<Longrightarrow> view p = Some ms \<Longrightarrow>
   http_sent (handleReviewSubmission bc evs feedback action p) =
     http_sent p @ [review_request (currentSessionId p) feedback (action_string action)]"
  by (auto simp: handleReviewSubmission_def submitReview_def Let_def handler_catch_def
      postMessage_fields connectToWorkflow_env split: sum.splits)

text \<open>
  C6. For every review submission the client sends a POST to
  \<^verbatim>\<open>/workflow/review\<close> whose body holds exactly the session id,
  the feedback text and the action:
  \<^verbatim>\<open>BackendClient.submitReview\<close> sends that request for whatever
  it is given, and \<^verbatim>\<open>handleReviewSubmission\<close>, for a provider
  with a current session and a view, sends it with the current session id, the feedback
  it was given and an action that is \<^verbatim>\<open>approve\<close> or
  \<^verbatim>\<open>revise\<close>.
\<close>

theorem review_request_sent:
  assumes "currentSessionId p = Some sid" and "js_truthy (Some sid)" and "view p = Some ms"
  shows "fst (submitReview bc (Some sessionId) feedback action) =
           [\<lparr>http_method = POST, http_path = ''/workflow/review'',
             http_body = Some (JObj [(''session_id'', sessionId), (''feedback'', JStr feedback),
                                     (''action'', JStr action)])\<rparr>]
    \<and> http_sent (handleReviewSubmission bc evs fb a p) =
         http_sent p @ [\<lparr>http_method = POST, http_path = ''/workflow/review'',
             http_body = Some (JObj [(''session_id'', sid), (''feedback'', JStr fb),
                                     (''action'', JStr (action_string a))])\<rparr>]
    \<and> (action_string a = ''approve'' \<or> action_string a = ''revise'')"
proof -
  have t: "js_truthy (currentSessionId p)"
    using assms by simp
  have "action_string a = ''approve'' \<or> action_string a = ''revise''"
    by (cases a) simp_all
  then show ?thesis
    using http_sent_review [OF t assms(3), of bc evs fb a] assms(1)
    by (simp add: submitReview_def review_request_def)
qed

text \<open>
  C6 at a concrete submission: a revision with the feedback "use tabs".
\<close>

theorem review_request_sent_witness:
  "currentSessionId example_reviewing = Some (JStr ''s-1'') \<and> js_truthy (Some (JStr ''s-1''))
   \<and> view example_reviewing = Some []
   \<and> http_sent (handleReviewSubmission example_client [] ''use tabs'' Revise example_reviewing) =
       [\<lparr>http_method = POST, http_path = ''/workflow/review'',
         http_body = Some (JObj [(''session_id'', JStr ''s-1''), (''feedback'', JStr ''use tabs''),
                                 (''action'', JStr ''revise'')])\<rparr>]"
proof -
  have s: "currentSessionId example_reviewing = Some (JStr ''s-1'')"
    and v: "view example_reviewing = Some []"
    and h: "http_sent example_reviewing = []"
    by (simp_all add: example_reviewing_def)
  have t: "js_truthy (Some (JStr ''s-1''))"
    by simp
  show ?thesis
    using review_request_sent [OF s t v, of example_client _ _ _ "[]" "''use tabs''" Revise] s v h
    by simp
qed

subsection \<open>No workspace\<close>

text \<open>
  C8. For every user message submitted when no workspace folder is open, the request is
  rejected before a session is created: no HTTP request is sent (so the start endpoint
  is never called), no socket is opened and the session id stays as it was; the view,
  from which the message came, is shown the user's message, the thinking indicator,
  then the error \<^verbatim>\<open>'Please open a workspace folder first'\<close>, and
  the indicator is switched off.
\<close>

theorem no_workspace_rejected:
  assumes "workspaceFolders p = None \<or> workspaceFolders p = Some []"
  shows "http_sent (handleUserMessage bc evs message p) = http_sent p
    \<and> ws_opened (handleUserMessage bc evs message p) = ws_opened p
    \<and> currentSessionId (handleUserMessage bc evs message p) = currentSessionId p
    \<and> view (handleUserMessage bc evs message p) =
        (case view p of
           None \<Rightarrow> None
         | Some ms \<Rightarrow> Some (ms @ [AddMessage ''user'' message, SetThinking True,
                                   ErrorMsg (JStr ''Please open a workspace folder first''),
                                   SetThinking False]))"
  using assms
  by (auto simp: handleUserMessage_def Let_def handler_catch_def postMessage_fields
      view_postMessage js_or_def split: option.splits)

text \<open>
  C8 at a concrete provider with a view and no workspace.
\<close>

theorem no_workspace_rejected_witness:
  "(workspaceFolders example_no_folder = None \<or> workspaceFolders example_no_folder = Some [])
   \<and> http_sent (handleUserMessage example_client [] ''add a parser'' example_no_folder) = []
   \<and> view (handleUserMessage example_client [] ''add a parser'' example_no_folder) =
       Some [AddMessage ''user'' ''add a parser'', SetThinking True,
             ErrorMsg (JStr ''Please open a workspace folder first''), SetThinking False]"
proof -
  have w: "workspaceFolders example_no_folder = None \<or> workspaceFolders example_no_folder = Some []"
    by (simp add: example_no_folder_def)
  have f: "http_sent example_no_folder = []" "view example_no_folder = Some []"
    by (simp_all add: example_no_folder_def)
  show ?thesis
    using no_workspace_rejected [OF w, of example_client "[]" "''add a parser''"] w f
    by simp
qed

section \<open>Properties of the engine\<close>

















section \<open>Review: approve and revise\<close>





subsection \<open>Approve\<close>






subsection \<open>Revise\<close>






end
